theory Spec2Isabelle
  imports Main
begin

section \<open>The healthcare notification system\<close>

text \<open>
  A shallow embedding of \<^verbatim>\<open>healthcare-notification-system.py\<close>. The program keeps
  \<^verbatim>\<open>Notification\<close> objects in a Python list and hands out references to them;
  \<^verbatim>\<open>view_notification\<close> mutates the object it found. The embedding therefore has an
  explicit object heap: a reference is an index into the list of all \<^verbatim>\<open>Notification\<close>
  objects allocated so far, a new object is allocated at the end of that list, and the
  store's \<^verbatim>\<open>_notifications\<close> is a list of references.

  Python integers are unbounded (\<open>int\<close>). \<^verbatim>\<open>datetime.datetime.now()\<close> is an input from
  the environment: it is the first argument of \<open>add_notification\<close>. What the methods
  \<^verbatim>\<open>print\<close> is returned as a list of messages, one constructor for each
  \<^verbatim>\<open>print\<close> statement of the source.
\<close>

subsection \<open>Data model\<close>

type_synonym ref = nat
type_synonym datetime = int

record Notification =
  notification_id :: int
  title :: string
  content :: string
  timestamp :: datetime
  is_read :: bool

text \<open>\<^verbatim>\<open>Notification.__init__\<close>: the four arguments are stored, \<^verbatim>\<open>is_read\<close> starts False.\<close>

definition Notification_init :: "int \<Rightarrow> string \<Rightarrow> string \<Rightarrow> datetime \<Rightarrow> Notification" where
  "Notification_init nid t c ts =
     \<lparr>notification_id = nid, title = t, content = c, timestamp = ts, is_read = False\<rparr>"

type_synonym heap = "Notification list"

text \<open>\<^verbatim>\<open>NotificationCenter\<close>: the fields \<^verbatim>\<open>_notifications\<close> and \<^verbatim>\<open>_next_id\<close>.\<close>

record NotificationCenter =
  notifications :: "ref list"
  next_id :: int

definition NotificationCenter_init :: NotificationCenter where
  "NotificationCenter_init = \<lparr>notifications = [], next_id = 1\<rparr>"

record HealthcareProviderSystem =
  notification_center :: NotificationCenter
  current_user :: "string option"

definition HealthcareProviderSystem_init :: HealthcareProviderSystem where
  "HealthcareProviderSystem_init =
     \<lparr>notification_center = NotificationCenter_init, current_user = None\<rparr>"

text \<open>The lines the program prints, with the values it formats into them.\<close>

datatype msg =
    LoggedInSuccessfully string
  | PleaseLogInFirst
  | FoundUnread nat
  | ViewingNotification int
  | TitleLine string
  | ContentLine string
  | TimestampLine datetime
  | MarkedAsRead
  | NoNotificationFound int

subsection \<open>NotificationCenter\<close>

text \<open>
  \<^verbatim>\<open>add_notification\<close>: a new object is allocated (at the end of the heap), appended to
  \<^verbatim>\<open>_notifications\<close>, the counter is incremented and the new object is returned.
\<close>

definition add_notification ::
  "datetime \<Rightarrow> string \<Rightarrow> string \<Rightarrow> heap \<Rightarrow> NotificationCenter \<Rightarrow> ref \<times> heap \<times> NotificationCenter" where
  "add_notification now t c h nc =
     (let new_notification = length h;
          h' = h @ [Notification_init (next_id nc) t c now];
          nc' = nc\<lparr>notifications := notifications nc @ [new_notification]\<rparr>;
          nc'' = nc'\<lparr>next_id := next_id nc' + 1\<rparr>
      in (new_notification, h', nc''))"

text \<open>
  \<^verbatim>\<open>get_unread_notifications\<close>: the list comprehension walks \<^verbatim>\<open>_notifications\<close> from
  the front and keeps the objects whose \<^verbatim>\<open>is_read\<close> is false.
\<close>

fun unread_of :: "heap \<Rightarrow> ref list \<Rightarrow> ref list" where
  "unread_of h [] = []"
| "unread_of h (notification # rest) =
     (if \<not> is_read (h ! notification) then notification # unread_of h rest
      else unread_of h rest)"

definition get_unread_notifications :: "heap \<Rightarrow> NotificationCenter \<Rightarrow> ref list" where
  "get_unread_notifications h nc = unread_of h (notifications nc)"

text \<open>
  \<^verbatim>\<open>get_notification_by_id\<close>: the \<^verbatim>\<open>for\<close> loop returns the first object whose
  identifier matches, and \<^verbatim>\<open>None\<close> after the last one.
\<close>

fun scan_by_id :: "heap \<Rightarrow> ref list \<Rightarrow> int \<Rightarrow> ref option" where
  "scan_by_id h [] nid = None"
| "scan_by_id h (notification # rest) nid =
     (if notification_id (h ! notification) = nid then Some notification
      else scan_by_id h rest nid)"

definition get_notification_by_id :: "heap \<Rightarrow> NotificationCenter \<Rightarrow> int \<Rightarrow> ref option" where
  "get_notification_by_id h nc nid = scan_by_id h (notifications nc) nid"

subsection \<open>HealthcareProviderSystem\<close>

text \<open>
  Python's truth value of \<^verbatim>\<open>self.current_user\<close>, which is \<^verbatim>\<open>None\<close> or a string:
  \<^verbatim>\<open>None\<close> and the empty string are false.
\<close>

definition logged_in :: "HealthcareProviderSystem \<Rightarrow> bool" where
  "logged_in s = (case current_user s of None \<Rightarrow> False | Some u \<Rightarrow> u \<noteq> [])"

definition login ::
  "string \<Rightarrow> string \<Rightarrow> HealthcareProviderSystem \<Rightarrow> bool \<times> msg list \<times> HealthcareProviderSystem" where
  "login username password s =
     (if username \<noteq> [] \<and> password \<noteq> []
      then (True, [LoggedInSuccessfully username], s\<lparr>current_user := Some username\<rparr>)
      else (False, [], s))"

definition check_notifications :: "heap \<Rightarrow> HealthcareProviderSystem \<Rightarrow> ref list \<times> msg list" where
  "check_notifications h s =
     (if \<not> logged_in s then ([], [PleaseLogInFirst])
      else (let unread_notifications = get_unread_notifications h (notification_center s)
            in (unread_notifications, [FoundUnread (length unread_notifications)])))"

text \<open>
  \<^verbatim>\<open>view_notification\<close>: the only assignment is \<^verbatim>\<open>notification.is_read = True\<close>, on the
  object the lookup returned, so the method changes the heap and nothing else. A
  \<^verbatim>\<open>Notification\<close> object is always true in \<^verbatim>\<open>if notification:\<close> (the class defines
  neither \<^verbatim>\<open>__bool__\<close> nor \<^verbatim>\<open>__len__\<close>), so that test is the test for \<^verbatim>\<open>None\<close>.
\<close>

definition view_notification ::
  "heap \<Rightarrow> HealthcareProviderSystem \<Rightarrow> int \<Rightarrow> ref option \<times> msg list \<times> heap" where
  "view_notification h s nid =
     (if \<not> logged_in s then (None, [PleaseLogInFirst], h)
      else (case get_notification_by_id h (notification_center s) nid of
              Some notification \<Rightarrow>
                (Some notification,
                 [ViewingNotification nid,
                  TitleLine (title (h ! notification)),
                  ContentLine (content (h ! notification)),
                  TimestampLine (timestamp (h ! notification)),
                  MarkedAsRead],
                 h[notification := (h ! notification)\<lparr>is_read := True\<rparr>])
            | None \<Rightarrow> (None, [NoNotificationFound nid], h)))"

subsection \<open>The public API as calls on a program state\<close>

record state =
  heap :: heap
  system :: HealthcareProviderSystem

datatype call =
    AddNotification datetime string string
  | GetUnreadNotifications
  | GetNotificationById int
  | Login string string
  | CheckNotifications
  | ViewNotification int

datatype retval =
    RetNotification ref
  | RetList "ref list"
  | RetOptional "ref option"
  | RetBool bool

abbreviation center :: "state \<Rightarrow> NotificationCenter" where
  "center w \<equiv> notification_center (system w)"

abbreviation stored :: "state \<Rightarrow> ref list" where
  "stored w \<equiv> notifications (center w)"

fun exec :: "call \<Rightarrow> state \<Rightarrow> retval \<times> msg list \<times> state" where
  "exec (AddNotification now t c) w =
     (case add_notification now t c (heap w) (center w) of
        (r, h', nc') \<Rightarrow>
          (RetNotification r, [],
           w\<lparr>heap := h', system := (system w)\<lparr>notification_center := nc'\<rparr>\<rparr>))"
| "exec GetUnreadNotifications w =
     (RetList (get_unread_notifications (heap w) (center w)), [], w)"
| "exec (GetNotificationById nid) w =
     (RetOptional (get_notification_by_id (heap w) (center w) nid), [], w)"
| "exec (Login username password) w =
     (case login username password (system w) of
        (b, out, s') \<Rightarrow> (RetBool b, out, w\<lparr>system := s'\<rparr>))"
| "exec CheckNotifications w =
     (case check_notifications (heap w) (system w) of
        (rs, out) \<Rightarrow> (RetList rs, out, w))"
| "exec (ViewNotification nid) w =
     (case view_notification (heap w) (system w) nid of
        (r, out, h') \<Rightarrow> (RetOptional r, out, w\<lparr>heap := h'\<rparr>))"

definition post :: "call \<Rightarrow> state \<Rightarrow> state" where
  "post c w = snd (snd (exec c w))"

definition ret :: "call \<Rightarrow> state \<Rightarrow> retval" where
  "ret c w = fst (exec c w)"

text \<open>
  A sequence of calls, run from left to right: the values returned, in call order, and
  the state after the last call.
\<close>

fun run :: "call list \<Rightarrow> state \<Rightarrow> retval list \<times> state" where
  "run [] w = ([], w)"
| "run (c # cs) w = (case run cs (post c w) of (rs, w') \<Rightarrow> (ret c w # rs, w'))"

text \<open>
  A freshly constructed system: \<^verbatim>\<open>HealthcareProviderSystem()\<close>, on a heap that may
  already hold objects (none of them in the new, empty store).
\<close>

definition fresh :: "heap \<Rightarrow> state" where
  "fresh h0 = \<lparr>heap = h0, system = HealthcareProviderSystem_init\<rparr>"

definition reach :: "heap \<Rightarrow> call list \<Rightarrow> state" where
  "reach h0 cs = snd (run cs (fresh h0))"

text \<open>The notifications returned by the \<^verbatim>\<open>add_notification\<close> calls, in call order.\<close>

fun created :: "retval list \<Rightarrow> ref list" where
  "created [] = []"
| "created (RetNotification r # rs) = r # created rs"
| "created (_ # rs) = created rs"

fun is_add :: "call \<Rightarrow> bool" where
  "is_add (AddNotification _ _ _) = True"
| "is_add _ = False"

text \<open>
  Python references never dangle: every reference in the store is an allocated object.
\<close>

definition wf :: "state \<Rightarrow> bool" where
  "wf w = list_all (\<lambda>r. r < length (heap w)) (stored w)"

text \<open>The identifiers of the stored notifications, in list order.\<close>

definition stored_ids :: "state \<Rightarrow> int list" where
  "stored_ids w = map (\<lambda>r. notification_id (heap w ! r)) (stored w)"

text \<open>The counter is one more than the number of stored notifications.\<close>

definition counter_inv :: "state \<Rightarrow> bool" where
  "counter_inv w = (next_id (center w) = int (length (stored w)) + 1)"

text \<open>The i-th stored notification has identifier i.\<close>

definition ids_inv :: "state \<Rightarrow> bool" where
  "ids_inv w = (stored_ids w = [1..int (length (stored w))])"

text \<open>
  The identifiers of the notifications that the \<^verbatim>\<open>add_notification\<close> calls of \<open>cs\<close>
  returned, in call order, read after the last call.
\<close>

definition created_ids :: "heap \<Rightarrow> call list \<Rightarrow> int list" where
  "created_ids h0 cs =
     map (\<lambda>r. notification_id (heap (reach h0 cs) ! r)) (created (fst (run cs (fresh h0))))"

subsection \<open>The scenario of \<^verbatim>\<open>main\<close>\<close>

text \<open>Two notifications are created and a user logs in; the state this leads to.\<close>

definition scenario_calls :: "call list" where
  "scenario_calls =
     [AddNotification 100 ''Patient Follow-up'' ''follow-up consultation'',
      AddNotification 200 ''Urgent: Medication Update'' ''review medications'',
      Login ''dr.smith'' ''secure_password'']"

definition example_state :: state where
  "example_state =
     \<lparr>heap =
        [\<lparr>notification_id = 1, title = ''Patient Follow-up'',
          content = ''follow-up consultation'', timestamp = 100, is_read = False\<rparr>,
         \<lparr>notification_id = 2, title = ''Urgent: Medication Update'',
          content = ''review medications'', timestamp = 200, is_read = False\<rparr>],
      system =
        \<lparr>notification_center = \<lparr>notifications = [0, 1], next_id = 3\<rparr>,
         current_user = Some ''dr.smith''\<rparr>\<rparr>"

section \<open>Auxiliary facts\<close>

lemma fst_run_Cons: "fst (run (c # cs) w) = ret c w # fst (run cs (post c w))"
  by (simp add: case_prod_beta)

lemma snd_run_Cons: "snd (run (c # cs) w) = snd (run cs (post c w))"
  by (simp add: case_prod_beta)

lemma unread_of_filter: "unread_of h rs = filter (\<lambda>r. \<not> is_read (h ! r)) rs"
  by (induction rs) auto

lemma scan_by_id_find: "scan_by_id h rs nid = List.find (\<lambda>r. notification_id (h ! r) = nid) rs"
  by (induction rs) auto

lemma scan_by_id_Some:
  "scan_by_id h rs nid = Some r \<Longrightarrow> r \<in> set rs \<and> notification_id (h ! r) = nid"
  by (induction rs) (auto split: if_splits)

lemma scan_by_id_None:
  "(scan_by_id h rs nid = None) = (\<forall>r\<in>set rs. notification_id (h ! r) \<noteq> nid)"
  by (induction rs) auto

lemma scan_by_id_cong:
  "(\<And>r. r \<in> set rs \<Longrightarrow> notification_id (h' ! r) = notification_id (h ! r)) \<Longrightarrow>
   scan_by_id h' rs nid = scan_by_id h rs nid"
  by (induction rs) auto

lemma id_mark_read:
  "notification_id (h[r := (h ! r)\<lparr>is_read := True\<rparr>] ! x) = notification_id (h ! x)"
  by (cases "r < length h") (auto simp: nth_list_update list_update_beyond)

lemma is_read_mark_read:
  "x < length h \<Longrightarrow> is_read (h ! x) \<Longrightarrow> is_read (h[r := (h ! r)\<lparr>is_read := True\<rparr>] ! x)"
  by (cases "r = x") auto

lemma scan_by_id_nth:
  "distinct (map (\<lambda>r. notification_id (h ! r)) rs) \<Longrightarrow> i < length rs \<Longrightarrow>
   scan_by_id h rs (notification_id (h ! (rs ! i))) = Some (rs ! i)"
proof (induction rs arbitrary: i)
  case Nil
  then show ?case by simp
next
  case (Cons a rs)
  show ?case
  proof (cases i)
    case 0
    then show ?thesis by simp
  next
    case (Suc j)
    with Cons.prems have j: "j < length rs" by simp
    then have "rs ! j \<in> set rs" by simp
    with Cons.prems have "notification_id (h ! a) \<noteq> notification_id (h ! (rs ! j))"
      by auto
    with Cons j Suc show ?thesis by simp
  qed
qed

declare run.simps(2) [simp del]

lemma snd_run_append: "snd (run (cs @ ds) w) = snd (run ds (snd (run cs w)))"
  by (induction cs arbitrary: w) (simp_all add: snd_run_Cons)

lemma reach_snoc: "reach h0 (cs @ [c]) = post c (reach h0 cs)"
  by (simp add: reach_def snd_run_append snd_run_Cons)

lemma stored_post:
  "stored (post c w) = (if is_add c then stored w @ [length (heap w)] else stored w)"
  by (cases c) (auto simp: post_def add_notification_def Let_def login_def check_notifications_def
      view_notification_def split: prod.splits option.splits)

lemma next_id_post:
  "next_id (center (post c w)) = (if is_add c then next_id (center w) + 1 else next_id (center w))"
  by (cases c) (auto simp: post_def add_notification_def Let_def login_def check_notifications_def
      view_notification_def split: prod.splits option.splits)

lemma length_heap_post:
  "length (heap (post c w)) = (if is_add c then Suc (length (heap w)) else length (heap w))"
  by (cases c) (auto simp: post_def add_notification_def Let_def login_def check_notifications_def
      view_notification_def split: prod.splits option.splits)

lemma ret_add: "ret (AddNotification now t c) w = RetNotification (length (heap w))"
  by (simp add: ret_def add_notification_def Let_def)

lemma created_ret: "created (ret c w # rs) = (if is_add c then length (heap w) # created rs else created rs)"
  by (cases c) (auto simp: ret_def add_notification_def Let_def login_def check_notifications_def
      view_notification_def split: prod.splits option.splits)

lemma id_post:
  "r < length (heap w) \<Longrightarrow> notification_id (heap (post c w) ! r) = notification_id (heap w ! r)"
  by (cases c) (auto simp: post_def add_notification_def Let_def login_def check_notifications_def
      view_notification_def nth_append id_mark_read split: prod.splits option.splits)

lemma is_read_post:
  "r < length (heap w) \<Longrightarrow> is_read (heap w ! r) \<Longrightarrow> is_read (heap (post c w) ! r)"
  by (cases c) (auto simp: post_def add_notification_def Let_def login_def check_notifications_def
      view_notification_def nth_append is_read_mark_read split: prod.splits option.splits)

lemma wf_post: "wf w \<Longrightarrow> wf (post c w)"
  by (auto simp: wf_def stored_post length_heap_post list_all_iff)

lemma heap_post_add:
  "heap (post (AddNotification now t c) w) = heap w @ [Notification_init (next_id (center w)) t c now]"
  by (simp add: post_def add_notification_def Let_def)

lemma stored_ids_post:
  assumes "wf w"
  shows "stored_ids (post c w) =
           (if is_add c then stored_ids w @ [next_id (center w)] else stored_ids w)"
proof -
  from assms have lt: "\<And>r. r \<in> set (stored w) \<Longrightarrow> r < length (heap w)"
    by (simp add: wf_def list_all_iff)
  show ?thesis
  proof (cases "is_add c")
    case True
    then obtain now t x where c: "c = AddNotification now t x" by (cases c) auto
    have "map (\<lambda>r. notification_id (heap (post c w) ! r)) (stored w) = stored_ids w"
      unfolding stored_ids_def by (rule map_cong) (auto simp: id_post lt)
    moreover have "notification_id (heap (post c w) ! length (heap w)) = next_id (center w)"
      by (simp add: c heap_post_add Notification_init_def)
    ultimately show ?thesis
      using True by (simp add: stored_ids_def stored_post)
  next
    case False
    have "map (\<lambda>r. notification_id (heap (post c w) ! r)) (stored w) = stored_ids w"
      unfolding stored_ids_def by (rule map_cong) (auto simp: id_post lt)
    with False show ?thesis by (simp add: stored_ids_def stored_post)
  qed
qed

lemma counter_inv_post: "counter_inv w \<Longrightarrow> counter_inv (post c w)"
  by (simp add: counter_inv_def stored_post next_id_post)

lemma ids_inv_post:
  assumes "wf w" "counter_inv w" "ids_inv w"
  shows "ids_inv (post c w)"
proof (cases "is_add c")
  case True
  have "[1..int (length (stored w)) + 1] = [1..int (length (stored w))] @ [int (length (stored w)) + 1]"
    using upto_rec2 [of 1 "int (length (stored w)) + 1"] by simp
  with assms True show ?thesis
    by (simp add: ids_inv_def counter_inv_def stored_ids_post stored_post add.commute)
next
  case False
  with assms show ?thesis
    by (simp add: ids_inv_def stored_ids_post stored_post)
qed

lemma wf_fresh: "wf (fresh h0)"
  by (simp add: wf_def fresh_def HealthcareProviderSystem_init_def NotificationCenter_init_def)

lemma reach_Nil: "reach h0 [] = fresh h0"
  by (simp add: reach_def)

lemma reach_invs: "wf (reach h0 cs) \<and> counter_inv (reach h0 cs) \<and> ids_inv (reach h0 cs)"
proof (induction cs rule: rev_induct)
  case Nil
  show ?case
    by (simp add: reach_Nil wf_fresh)
       (simp add: counter_inv_def ids_inv_def stored_ids_def fresh_def
          HealthcareProviderSystem_init_def NotificationCenter_init_def)
next
  case (snoc c cs)
  then show ?case
    by (simp add: reach_snoc wf_post counter_inv_post ids_inv_post)
qed

lemma stored_run: "stored (snd (run cs w)) = stored w @ created (fst (run cs w))"
proof (induction cs arbitrary: w)
  case Nil
  show ?case by simp
next
  case (Cons c cs)
  from Cons [of "post c w"] show ?case
    by (simp add: fst_run_Cons snd_run_Cons created_ret stored_post)
qed

lemma length_created_run: "length (created (fst (run cs w))) = length (filter is_add cs)"
proof (induction cs arbitrary: w)
  case Nil
  show ?case by simp
next
  case (Cons c cs)
  from Cons [of "post c w"] show ?case
    by (simp add: fst_run_Cons created_ret)
qed

lemma stored_reach: "stored (reach h0 cs) = created (fst (run cs (fresh h0)))"
  using stored_run [of cs "fresh h0"]
  by (simp add: reach_def) (simp add: fresh_def HealthcareProviderSystem_init_def NotificationCenter_init_def)

lemma is_read_run:
  "r < length (heap w) \<Longrightarrow> is_read (heap w ! r) \<Longrightarrow> is_read (heap (snd (run cs w)) ! r)"
proof (induction cs arbitrary: w)
  case Nil
  then show ?case by simp
next
  case (Cons c cs)
  have "r < length (heap (post c w))"
    using Cons.prems(1) by (simp add: length_heap_post)
  moreover have "is_read (heap (post c w) ! r)"
    using Cons.prems by (rule is_read_post)
  ultimately have "is_read (heap (snd (run cs (post c w))) ! r)"
    by (rule Cons.IH)
  then show ?case by (simp add: snd_run_Cons)
qed

lemma logged_in_post:
  "(logged_in (system w) \<longleftrightarrow> current_user (system w) \<noteq> None) \<Longrightarrow>
   (logged_in (system (post c w)) \<longleftrightarrow> current_user (system (post c w)) \<noteq> None)"
  by (cases c) (auto simp: post_def add_notification_def Let_def login_def logged_in_def
      split: prod.splits option.splits)

lemma logged_in_reach:
  "logged_in (system (reach h0 cs)) \<longleftrightarrow> current_user (system (reach h0 cs)) \<noteq> None"
proof (induction cs rule: rev_induct)
  case Nil
  show ?case
    by (simp add: reach_Nil fresh_def HealthcareProviderSystem_init_def logged_in_def)
next
  case (snoc c cs)
  then show ?case
    unfolding reach_snoc by (rule logged_in_post)
qed

lemmas run_eval =
  reach_def fresh_def HealthcareProviderSystem_init_def NotificationCenter_init_def
  fst_run_Cons snd_run_Cons post_def ret_def add_notification_def Let_def login_def
  check_notifications_def view_notification_def get_notification_by_id_def
  get_unread_notifications_def logged_in_def Notification_init_def

lemma reach_scenario: "reach [] scenario_calls = example_state"
  by (simp add: scenario_calls_def example_state_def run_eval)

lemma mark_read_twice:
  "h[r := (h[r := (h ! r)\<lparr>is_read := True\<rparr>] ! r)\<lparr>is_read := True\<rparr>]
     = h[r := (h ! r)\<lparr>is_read := True\<rparr>]"
  by (cases "r < length h") (simp_all add: list_update_beyond)

lemma mark_read_already: "is_read (h ! r) \<Longrightarrow> h[r := (h ! r)\<lparr>is_read := True\<rparr>] = h"
proof -
  assume "is_read (h ! r)"
  then have "(h ! r)\<lparr>is_read := True\<rparr> = h ! r" by simp
  then show ?thesis by simp
qed

lemma post_view_found:
  "logged_in (system w) \<Longrightarrow> scan_by_id (heap w) (stored w) nid = Some r \<Longrightarrow>
   post (ViewNotification nid) w = w\<lparr>heap := (heap w)[r := (heap w ! r)\<lparr>is_read := True\<rparr>]\<rparr>"
  by (simp add: post_def view_notification_def get_notification_by_id_def)

lemma ret_view_found:
  "logged_in (system w) \<Longrightarrow> scan_by_id (heap w) (stored w) nid = Some r \<Longrightarrow>
   ret (ViewNotification nid) w = RetOptional (Some r)"
  by (simp add: ret_def view_notification_def get_notification_by_id_def)

section \<open>Properties\<close>

subsection \<open>Identifiers\<close>

text \<open>
  C1. Run any sequence \<open>cs\<close> of calls of the public API on a freshly constructed system,
  and let N be the number of \<^verbatim>\<open>add_notification\<close> calls in it (the other calls may be
  interleaved in any way, or absent). The identifiers of the notifications those calls
  returned are, in call order, exactly 1, 2, ..., N: strictly increasing, without
  repetition and without gaps. The next \<^verbatim>\<open>add_notification\<close> call returns a
  notification whose identifier is N + 1.
\<close>

theorem created_ids_1_to_N:
  "created_ids h0 cs = [1..int (length (filter is_add cs))] \<and>
   length (created_ids h0 cs) = length (filter is_add cs) \<and>
   sorted_wrt (<) (created_ids h0 cs) \<and>
   distinct (created_ids h0 cs) \<and>
   (\<exists>r. ret (AddNotification now t c) (reach h0 cs) = RetNotification r \<and>
        notification_id (heap (post (AddNotification now t c) (reach h0 cs)) ! r) =
          int (length (filter is_add cs)) + 1)"
proof -
  have len: "length (stored (reach h0 cs)) = length (filter is_add cs)"
    by (simp add: stored_reach length_created_run)
  have "created_ids h0 cs = stored_ids (reach h0 cs)"
    by (simp add: created_ids_def stored_ids_def stored_reach)
  also have "\<dots> = [1..int (length (stored (reach h0 cs)))]"
    using reach_invs [of h0 cs] by (simp add: ids_inv_def)
  finally have ids: "created_ids h0 cs = [1..int (length (filter is_add cs))]"
    by (simp add: len)
  have "next_id (center (reach h0 cs)) = int (length (filter is_add cs)) + 1"
    using reach_invs [of h0 cs] by (simp add: counter_inv_def len)
  then have "notification_id (heap (post (AddNotification now t c) (reach h0 cs)) !
               length (heap (reach h0 cs))) = int (length (filter is_add cs)) + 1"
    by (simp add: heap_post_add Notification_init_def)
  with ids show ?thesis
    by (simp add: ret_add)
qed

theorem created_ids_1_to_N_witness:
  "created_ids []
     [AddNotification 100 ''a'' ''b'', Login ''x'' ''y'', AddNotification 200 [] [],
      ViewNotification 1, CheckNotifications, AddNotification 300 ''c'' ''d''] = [1, 2, 3]"
  using created_ids_1_to_N [of "[]"
     "[AddNotification 100 ''a'' ''b'', Login ''x'' ''y'', AddNotification 200 [] [],
       ViewNotification 1, CheckNotifications, AddNotification 300 ''c'' ''d'']"]
  by (simp add: upto_rec1)

subsection \<open>view_notification\<close>

text \<open>
  C2. In every state and for every identifier \<open>nid\<close>, \<^verbatim>\<open>view_notification\<close> behaves
  as follows. Logged in, and some stored notification has identifier \<open>nid\<close> (the
  references of the store being allocated objects, as they are in Python): it returns a
  stored notification with that identifier, and afterwards that object is the object it
  was with \<^verbatim>\<open>is_read\<close> set to True; no other object and nothing else in the state
  changes. Logged in, and no stored notification has that identifier: it returns
  \<^verbatim>\<open>None\<close> and changes nothing. Not logged in: it returns \<^verbatim>\<open>None\<close> and changes
  nothing, whatever the store holds. Logged in is the test of the source, the truth value
  of \<^verbatim>\<open>current_user\<close>; in every state reached from a fresh system by calls of the API
  it is the same as \<^verbatim>\<open>current_user\<close> being set.
\<close>

theorem view_notification_cases:
  "(wf w \<and> logged_in (system w) \<and>
    (\<exists>r\<in>set (stored w). notification_id (heap w ! r) = nid) \<longrightarrow>
        (\<exists>r\<in>set (stored w).
            notification_id (heap w ! r) = nid \<and>
            ret (ViewNotification nid) w = RetOptional (Some r) \<and>
            post (ViewNotification nid) w = w\<lparr>heap := (heap w)[r := (heap w ! r)\<lparr>is_read := True\<rparr>]\<rparr> \<and>
            heap (post (ViewNotification nid) w) ! r = (heap w ! r)\<lparr>is_read := True\<rparr> \<and>
            is_read (heap (post (ViewNotification nid) w) ! r) \<and>
            (\<forall>x. x \<noteq> r \<longrightarrow> heap (post (ViewNotification nid) w) ! x = heap w ! x))) \<and>
   (logged_in (system w) \<and> \<not> (\<exists>r\<in>set (stored w). notification_id (heap w ! r) = nid) \<longrightarrow>
        ret (ViewNotification nid) w = RetOptional None \<and>
        post (ViewNotification nid) w = w) \<and>
   (\<not> logged_in (system w) \<longrightarrow>
        ret (ViewNotification nid) w = RetOptional None \<and>
        post (ViewNotification nid) w = w) \<and>
   (logged_in (system (reach h0 cs)) \<longleftrightarrow> current_user (system (reach h0 cs)) \<noteq> None)"
proof (intro conjI impI)
  assume a: "wf w \<and> logged_in (system w) \<and>
    (\<exists>r\<in>set (stored w). notification_id (heap w ! r) = nid)"
  then have "scan_by_id (heap w) (stored w) nid \<noteq> None"
    by (simp add: scan_by_id_None)
  then obtain r where r: "scan_by_id (heap w) (stored w) nid = Some r"
    by auto
  then have mem: "r \<in> set (stored w)" and rid: "notification_id (heap w ! r) = nid"
    by (auto dest: scan_by_id_Some)
  from mem a have lt: "r < length (heap w)"
    by (simp add: wf_def list_all_iff)
  from a r have p: "post (ViewNotification nid) w =
             w\<lparr>heap := (heap w)[r := (heap w ! r)\<lparr>is_read := True\<rparr>]\<rparr>"
    by (simp add: post_view_found)
  from a r have "ret (ViewNotification nid) w = RetOptional (Some r)"
    by (simp add: ret_view_found)
  with mem rid p lt
  show "\<exists>r\<in>set (stored w).
            notification_id (heap w ! r) = nid \<and>
            ret (ViewNotification nid) w = RetOptional (Some r) \<and>
            post (ViewNotification nid) w = w\<lparr>heap := (heap w)[r := (heap w ! r)\<lparr>is_read := True\<rparr>]\<rparr> \<and>
            heap (post (ViewNotification nid) w) ! r = (heap w ! r)\<lparr>is_read := True\<rparr> \<and>
            is_read (heap (post (ViewNotification nid) w) ! r) \<and>
            (\<forall>x. x \<noteq> r \<longrightarrow> heap (post (ViewNotification nid) w) ! x = heap w ! x)"
    by (intro bexI [of _ r]) simp_all
next
  assume a: "logged_in (system w) \<and> \<not> (\<exists>r\<in>set (stored w). notification_id (heap w ! r) = nid)"
  then have n: "scan_by_id (heap w) (stored w) nid = None"
    by (simp add: scan_by_id_None)
  with a show "ret (ViewNotification nid) w = RetOptional None"
    by (simp add: ret_def view_notification_def get_notification_by_id_def)
  from a n show "post (ViewNotification nid) w = w"
    by (simp add: post_def view_notification_def get_notification_by_id_def)
next
  assume "\<not> logged_in (system w)"
  then show "ret (ViewNotification nid) w = RetOptional None"
    and "post (ViewNotification nid) w = w"
    by (simp_all add: ret_def post_def view_notification_def)
next
  show "logged_in (system (reach h0 cs)) \<longleftrightarrow> current_user (system (reach h0 cs)) \<noteq> None"
    by (rule logged_in_reach)
qed

theorem view_notification_cases_witness:
  "wf example_state \<and> logged_in (system example_state) \<and>
   ret (ViewNotification 2) example_state = RetOptional (Some 1) \<and>
   is_read (heap (post (ViewNotification 2) example_state) ! 1) \<and>
   \<not> is_read (heap (post (ViewNotification 2) example_state) ! 0) \<and>
   ret (ViewNotification 3) example_state = RetOptional None \<and>
   post (ViewNotification 3) example_state = example_state \<and>
   wf (fresh (heap example_state)) \<and> \<not> logged_in (system (fresh (heap example_state))) \<and>
   ret (ViewNotification 2) (fresh (heap example_state)) = RetOptional None"
  using view_notification_cases [of example_state 2]
        view_notification_cases [of example_state 3]
        view_notification_cases [of "fresh (heap example_state)" 2]
  by (simp add: example_state_def wf_def run_eval)

subsection \<open>check_notifications\<close>

text \<open>
  C3. In every state, \<^verbatim>\<open>check_notifications\<close> returns the empty list when not logged
  in, whatever the store holds; when logged in it returns the stored notifications whose
  \<^verbatim>\<open>is_read\<close> is false, in the order of the store, which is what
  \<^verbatim>\<open>get_unread_notifications\<close> returns. In both cases the state is unchanged. Logged
  in is the test of the source, the truth value of \<^verbatim>\<open>current_user\<close>; in every state
  reached from a fresh system by calls of the API it is the same as \<^verbatim>\<open>current_user\<close>
  being set.
\<close>

theorem check_notifications_cases:
  "(\<not> logged_in (system w) \<longrightarrow> ret CheckNotifications w = RetList []) \<and>
   (logged_in (system w) \<longrightarrow>
      ret CheckNotifications w = RetList (filter (\<lambda>r. \<not> is_read (heap w ! r)) (stored w)) \<and>
      ret CheckNotifications w = ret GetUnreadNotifications w) \<and>
   post CheckNotifications w = w \<and>
   (logged_in (system (reach h0 cs)) \<longleftrightarrow> current_user (system (reach h0 cs)) \<noteq> None)"
  by (simp add: ret_def post_def check_notifications_def get_unread_notifications_def
      unread_of_filter Let_def logged_in_reach)

theorem check_notifications_cases_witness:
  "logged_in (system example_state) \<and>
   ret CheckNotifications example_state = RetList [0, 1] \<and>
   ret CheckNotifications (post (ViewNotification 1) example_state) = RetList [1] \<and>
   \<not> logged_in (system (example_state\<lparr>system := (system example_state)\<lparr>current_user := None\<rparr>\<rparr>)) \<and>
   ret CheckNotifications (example_state\<lparr>system := (system example_state)\<lparr>current_user := None\<rparr>\<rparr>)
     = RetList []"
  using check_notifications_cases [of example_state]
        check_notifications_cases [of "post (ViewNotification 1) example_state"]
        check_notifications_cases
          [of "example_state\<lparr>system := (system example_state)\<lparr>current_user := None\<rparr>\<rparr>"]
  by (simp add: example_state_def run_eval)

subsection \<open>login\<close>

text \<open>
  C4. For all strings \<open>username\<close> and \<open>password\<close> and every session state, \<open>login\<close>
  returns true exactly when both strings are non-empty; then the current user is
  \<open>username\<close> (and the store is untouched). When either string is empty it returns
  false and the whole system state, the current user included, is unchanged.
\<close>

theorem login_iff_nonempty:
  "(fst (login username password s) \<longleftrightarrow> username \<noteq> [] \<and> password \<noteq> []) \<and>
   (username \<noteq> [] \<and> password \<noteq> [] \<longrightarrow>
      current_user (snd (snd (login username password s))) = Some username \<and>
      notification_center (snd (snd (login username password s))) = notification_center s \<and>
      post (Login username password) w = w\<lparr>system := (system w)\<lparr>current_user := Some username\<rparr>\<rparr> \<and>
      ret (Login username password) w = RetBool True) \<and>
   (username = [] \<or> password = [] \<longrightarrow>
      snd (snd (login username password s)) = s \<and>
      post (Login username password) w = w \<and>
      ret (Login username password) w = RetBool False)"
  by (simp add: login_def post_def ret_def)

theorem login_iff_nonempty_witness:
  "fst (login ''x'' ''y'' HealthcareProviderSystem_init) \<and>
   current_user (snd (snd (login ''x'' ''y'' HealthcareProviderSystem_init))) = Some ''x'' \<and>
   \<not> fst (login '''' ''x'' HealthcareProviderSystem_init) \<and>
   snd (snd (login '''' ''x'' HealthcareProviderSystem_init)) = HealthcareProviderSystem_init \<and>
   \<not> fst (login ''x'' '''' HealthcareProviderSystem_init) \<and>
   snd (snd (login ''x'' '''' HealthcareProviderSystem_init)) = HealthcareProviderSystem_init"
  using login_iff_nonempty [of "''x''" "''y''" HealthcareProviderSystem_init]
        login_iff_nonempty [of "''''" "''x''" HealthcareProviderSystem_init]
        login_iff_nonempty [of "''x''" "''''" HealthcareProviderSystem_init]
  by simp

subsection \<open>get_unread_notifications\<close>

text \<open>
  C5. For every heap and store, \<^verbatim>\<open>get_unread_notifications\<close> returns the stored
  notifications whose \<^verbatim>\<open>is_read\<close> is false, in the order of the store (the order of
  creation). The result is empty exactly when every stored notification is read, in
  particular when the store is empty. The call leaves the state unchanged. In a state
  reached from a fresh system, the order of the store is the order in which the
  \<^verbatim>\<open>add_notification\<close> calls returned the notifications.
\<close>

theorem get_unread_notifications_filter:
  "get_unread_notifications h nc = filter (\<lambda>r. \<not> is_read (h ! r)) (notifications nc) \<and>
   (get_unread_notifications h nc = [] \<longleftrightarrow>
      list_all (\<lambda>r. is_read (h ! r)) (notifications nc)) \<and>
   (notifications nc = [] \<longrightarrow> get_unread_notifications h nc = []) \<and>
   ret GetUnreadNotifications w =
     RetList (filter (\<lambda>r. \<not> is_read (heap w ! r)) (stored w)) \<and>
   post GetUnreadNotifications w = w \<and>
   get_unread_notifications (heap (reach h0 cs)) (center (reach h0 cs)) =
     filter (\<lambda>r. \<not> is_read (heap (reach h0 cs) ! r)) (created (fst (run cs (fresh h0))))"
  by (simp add: get_unread_notifications_def unread_of_filter filter_empty_conv list_all_iff
      ret_def post_def stored_reach)

theorem get_unread_notifications_filter_witness:
  "get_unread_notifications (heap example_state) (center example_state) = [0, 1] \<and>
   get_unread_notifications (heap (post (ViewNotification 1) example_state))
     (center (post (ViewNotification 1) example_state)) = [1] \<and>
   get_unread_notifications
     (heap (post (ViewNotification 2) (post (ViewNotification 1) example_state)))
     (center (post (ViewNotification 2) (post (ViewNotification 1) example_state))) = [] \<and>
   notifications NotificationCenter_init = [] \<and>
   get_unread_notifications (heap example_state) NotificationCenter_init = []"
  using get_unread_notifications_filter [of "heap example_state" "center example_state"]
    get_unread_notifications_filter [of "heap (post (ViewNotification 1) example_state)"
      "center (post (ViewNotification 1) example_state)"]
    get_unread_notifications_filter
      [of "heap (post (ViewNotification 2) (post (ViewNotification 1) example_state))"
       "center (post (ViewNotification 2) (post (ViewNotification 1) example_state))"]
    get_unread_notifications_filter [of "heap example_state" NotificationCenter_init]
  by (simp add: example_state_def run_eval)

subsection \<open>get_notification_by_id\<close>

text \<open>
  C6. For every heap, store and integer \<open>nid\<close>: if some stored notification has
  identifier \<open>nid\<close>, \<^verbatim>\<open>get_notification_by_id\<close> returns a stored notification with that
  identifier (the first one in the store); if none has, it returns \<^verbatim>\<open>None\<close>. In a
  state reached from a fresh system that holds N notifications, an identifier \<open>i\<close>
  with 1 \<le> i \<le> N finds the i-th stored notification, whose identifier is \<open>i\<close>, and
  an identifier below 1 or above N (such as 0 or N + 1) finds \<^verbatim>\<open>None\<close>. The call
  leaves the state unchanged.
\<close>

theorem get_notification_by_id_cases:
  "((\<exists>r\<in>set (notifications nc). notification_id (h ! r) = nid) \<longrightarrow>
      (\<exists>r\<in>set (notifications nc).
          get_notification_by_id h nc nid = Some r \<and> notification_id (h ! r) = nid)) \<and>
   (\<not> (\<exists>r\<in>set (notifications nc). notification_id (h ! r) = nid) \<longrightarrow>
      get_notification_by_id h nc nid = None) \<and>
   get_notification_by_id h nc nid =
     List.find (\<lambda>r. notification_id (h ! r) = nid) (notifications nc) \<and>
   (1 \<le> i \<and> i \<le> int (length (stored (reach h0 cs))) \<longrightarrow>
      get_notification_by_id (heap (reach h0 cs)) (center (reach h0 cs)) i =
        Some (stored (reach h0 cs) ! nat (i - 1)) \<and>
      notification_id (heap (reach h0 cs) ! (stored (reach h0 cs) ! nat (i - 1))) = i) \<and>
   (i < 1 \<or> int (length (stored (reach h0 cs))) < i \<longrightarrow>
      get_notification_by_id (heap (reach h0 cs)) (center (reach h0 cs)) i = None) \<and>
   ret (GetNotificationById nid) w =
     RetOptional (get_notification_by_id (heap w) (center w) nid) \<and>
   post (GetNotificationById nid) w = w"
proof (intro conjI impI)
  assume "\<exists>r\<in>set (notifications nc). notification_id (h ! r) = nid"
  then have "scan_by_id h (notifications nc) nid \<noteq> None"
    by (simp add: scan_by_id_None)
  then obtain r where "scan_by_id h (notifications nc) nid = Some r"
    by auto
  then show "\<exists>r\<in>set (notifications nc).
      get_notification_by_id h nc nid = Some r \<and> notification_id (h ! r) = nid"
    by (auto simp: get_notification_by_id_def dest: scan_by_id_Some)
next
  assume "\<not> (\<exists>r\<in>set (notifications nc). notification_id (h ! r) = nid)"
  then show "get_notification_by_id h nc nid = None"
    by (simp add: get_notification_by_id_def scan_by_id_None)
next
  show "get_notification_by_id h nc nid =
     List.find (\<lambda>r. notification_id (h ! r) = nid) (notifications nc)"
    by (simp add: get_notification_by_id_def scan_by_id_find)
next
  let ?w = "reach h0 cs"
  have ids: "stored_ids ?w = [1..int (length (stored ?w))]"
    using reach_invs [of h0 cs] by (simp add: ids_inv_def)
  assume i: "1 \<le> i \<and> i \<le> int (length (stored ?w))"
  then have k: "nat (i - 1) < length (stored ?w)" by auto
  have "stored_ids ?w ! nat (i - 1) = i"
    using i by (simp add: ids)
  with k show idk: "notification_id (heap ?w ! (stored ?w ! nat (i - 1))) = i"
    by (simp add: stored_ids_def)
  have "distinct (map (\<lambda>r. notification_id (heap ?w ! r)) (stored ?w))"
    using ids by (simp add: stored_ids_def)
  from scan_by_id_nth [OF this k] idk
  show "get_notification_by_id (heap ?w) (center ?w) i = Some (stored ?w ! nat (i - 1))"
    by (simp add: get_notification_by_id_def)
next
  let ?w = "reach h0 cs"
  have ids: "stored_ids ?w = [1..int (length (stored ?w))]"
    using reach_invs [of h0 cs] by (simp add: ids_inv_def)
  assume "i < 1 \<or> int (length (stored ?w)) < i"
  then have "i \<notin> set (stored_ids ?w)"
    by (auto simp: ids)
  then show "get_notification_by_id (heap ?w) (center ?w) i = None"
    by (auto simp: get_notification_by_id_def scan_by_id_None stored_ids_def)
next
  show "ret (GetNotificationById nid) w =
     RetOptional (get_notification_by_id (heap w) (center w) nid)"
    by (simp add: ret_def)
next
  show "post (GetNotificationById nid) w = w"
    by (simp add: post_def)
qed

theorem get_notification_by_id_cases_witness:
  "get_notification_by_id (heap example_state) (center example_state) 1 = Some 0 \<and>
   get_notification_by_id (heap example_state) (center example_state) 2 = Some 1 \<and>
   get_notification_by_id (heap example_state) (center example_state) 0 = None \<and>
   get_notification_by_id (heap example_state) (center example_state) 3 = None \<and>
   int (length (stored (reach [] scenario_calls))) = 2 \<and>
   get_notification_by_id (heap (reach [] scenario_calls)) (center (reach [] scenario_calls)) 2 =
     Some (stored (reach [] scenario_calls) ! 1) \<and>
   get_notification_by_id (heap (reach [] scenario_calls)) (center (reach [] scenario_calls)) 3 =
     None"
  using get_notification_by_id_cases [of "center example_state" "heap example_state" 1]
        get_notification_by_id_cases [of "center example_state" "heap example_state" 2]
        get_notification_by_id_cases [of "center example_state" "heap example_state" 0]
        get_notification_by_id_cases [of "center example_state" "heap example_state" 3]
        get_notification_by_id_cases [of _ _ _ 2 "[]" scenario_calls]
        get_notification_by_id_cases [of _ _ _ 3 "[]" scenario_calls]
  by (simp add: reach_scenario) (simp add: example_state_def run_eval)

subsection \<open>add_notification\<close>

text \<open>
  C7. For every heap and store and all strings \<open>t\<close> and \<open>c\<close>, the empty string
  included, \<^verbatim>\<open>add_notification\<close> returns a result (the model has no error value,
  because the source has no \<^verbatim>\<open>raise\<close> on this path, and the function is total): a
  newly allocated notification that carries the store's current \<^verbatim>\<open>_next_id\<close>, the
  given title and content, the time of the call, and \<^verbatim>\<open>is_read\<close> False. The objects
  that existed before are untouched, the new notification is appended at the end of
  \<^verbatim>\<open>_notifications\<close>, and \<^verbatim>\<open>_next_id\<close> grows by 1. The session is untouched.
\<close>

theorem add_notification_appends:
  "(\<exists>r h' nc'.
      add_notification now t c h nc = (r, h', nc') \<and>
      r = length h \<and>
      h' ! r = \<lparr>notification_id = next_id nc, title = t, content = c, timestamp = now,
                is_read = False\<rparr> \<and>
      length h' = Suc (length h) \<and>
      (\<forall>x<length h. h' ! x = h ! x) \<and>
      notifications nc' = notifications nc @ [r] \<and>
      next_id nc' = next_id nc + 1) \<and>
   ret (AddNotification now t c) w = RetNotification (length (heap w)) \<and>
   current_user (system (post (AddNotification now t c) w)) = current_user (system w)"
  by (simp add: add_notification_def Let_def Notification_init_def nth_append ret_def post_def)

theorem add_notification_appends_witness:
  "add_notification 300 [] [] (heap example_state) (center example_state) =
     (2,
      heap example_state @
        [\<lparr>notification_id = 3, title = [], content = [], timestamp = 300, is_read = False\<rparr>],
      \<lparr>notifications = [0, 1, 2], next_id = 4\<rparr>)"
  using add_notification_appends [of 300 "[]" "[]" "heap example_state" "center example_state"]
  by (simp add: example_state_def run_eval)

subsection \<open>The read flag\<close>

text \<open>
  C8. In every state whose references are allocated objects (every state reached from a
  fresh system is one), a stored notification that is read is still read after any call of
  the public API, and after any sequence of such calls: no operation takes
  \<^verbatim>\<open>is_read\<close> from True back to False.
\<close>

theorem is_read_never_reset:
  "(wf w \<and> r \<in> set (stored w) \<and> is_read (heap w ! r) \<longrightarrow>
      is_read (heap (post c w) ! r) \<and> is_read (heap (snd (run ds w)) ! r)) \<and>
   wf (reach h0 cs) \<and>
   (r \<in> set (stored (reach h0 cs)) \<and> is_read (heap (reach h0 cs) ! r) \<longrightarrow>
      is_read (heap (reach h0 (cs @ ds)) ! r))"
proof -
  have step: "is_read (heap (post c w) ! r) \<and> is_read (heap (snd (run ds w)) ! r)"
    if "wf w" "r \<in> set (stored w)" "is_read (heap w ! r)" for w
  proof -
    from that have "r < length (heap w)"
      by (simp add: wf_def list_all_iff)
    with that show ?thesis
      by (simp add: is_read_post is_read_run)
  qed
  have wfr: "wf (reach h0 cs)"
    using reach_invs [of h0 cs] by simp
  have "reach h0 (cs @ ds) = snd (run ds (reach h0 cs))"
    by (simp add: reach_def snd_run_append)
  with step [of w] step [of "reach h0 cs"] wfr show ?thesis
    by simp
qed

theorem is_read_never_reset_witness:
  "wf (post (ViewNotification 1) example_state) \<and>
   0 \<in> set (stored (post (ViewNotification 1) example_state)) \<and>
   is_read (heap (post (ViewNotification 1) example_state) ! 0) \<and>
   is_read (heap (post (AddNotification 300 ''a'' ''b'') (post (ViewNotification 1) example_state)) ! 0) \<and>
   is_read (heap (snd (run [AddNotification 300 ''a'' ''b'', ViewNotification 2, Login ''u'' ''p'',
     ViewNotification 1, CheckNotifications] (post (ViewNotification 1) example_state))) ! 0)"
  using is_read_never_reset [of "post (ViewNotification 1) example_state" 0
     "AddNotification 300 ''a'' ''b''"
     "[AddNotification 300 ''a'' ''b'', ViewNotification 2, Login ''u'' ''p'',
       ViewNotification 1, CheckNotifications]"]
  by (simp add: example_state_def wf_def run_eval)

text \<open>
  C9. In every state whose references are allocated objects, logged in, and for every
  identifier \<open>nid\<close> that some stored notification has: two calls of
  \<^verbatim>\<open>view_notification\<close> in succession return the same notification, its
  \<^verbatim>\<open>is_read\<close> is True after the first call and after the second, and the second call
  changes nothing. A notification that is already read is returned all the same, and
  viewing it changes nothing.
\<close>

theorem view_notification_twice:
  assumes "wf w" and "logged_in (system w)"
    and "\<exists>r\<in>set (stored w). notification_id (heap w ! r) = nid"
  shows "\<exists>r\<in>set (stored w).
           notification_id (heap w ! r) = nid \<and>
           ret (ViewNotification nid) w = RetOptional (Some r) \<and>
           ret (ViewNotification nid) (post (ViewNotification nid) w) = RetOptional (Some r) \<and>
           is_read (heap (post (ViewNotification nid) w) ! r) \<and>
           is_read (heap (post (ViewNotification nid) (post (ViewNotification nid) w)) ! r) \<and>
           post (ViewNotification nid) (post (ViewNotification nid) w) =
             post (ViewNotification nid) w \<and>
           (is_read (heap w ! r) \<longrightarrow> post (ViewNotification nid) w = w)"
proof -
  let ?v = "ViewNotification nid"
  from assms(3) have "scan_by_id (heap w) (stored w) nid \<noteq> None"
    by (simp add: scan_by_id_None)
  then obtain r where r: "scan_by_id (heap w) (stored w) nid = Some r"
    by auto
  then have mem: "r \<in> set (stored w)" and rid: "notification_id (heap w ! r) = nid"
    by (auto dest: scan_by_id_Some)
  from mem assms(1) have lt: "r < length (heap w)"
    by (simp add: wf_def list_all_iff)
  let ?h' = "(heap w)[r := (heap w ! r)\<lparr>is_read := True\<rparr>]"
  let ?w' = "w\<lparr>heap := ?h'\<rparr>"
  have p1: "post ?v w = ?w'"
    using assms(2) r by (rule post_view_found)
  have r1: "ret ?v w = RetOptional (Some r)"
    using assms(2) r by (rule ret_view_found)
  have "scan_by_id ?h' (stored w) nid = scan_by_id (heap w) (stored w) nid"
    by (rule scan_by_id_cong) (rule id_mark_read)
  with r have r': "scan_by_id (heap ?w') (stored ?w') nid = Some r"
    by simp
  from assms(2) have l': "logged_in (system ?w')"
    by simp
  have r2: "ret ?v (post ?v w) = RetOptional (Some r)"
    unfolding p1 using l' r' by (rule ret_view_found)
  have "post ?v ?w' = ?w'\<lparr>heap := (heap ?w')[r := (heap ?w' ! r)\<lparr>is_read := True\<rparr>]\<rparr>"
    using l' r' by (rule post_view_found)
  then have p2: "post ?v (post ?v w) = post ?v w"
    by (simp add: p1 mark_read_twice)
  have f1: "is_read (heap (post ?v w) ! r)"
    using lt by (simp add: p1)
  have same: "is_read (heap w ! r) \<longrightarrow> post ?v w = w"
    by (simp add: p1 mark_read_already)
  from mem rid r1 r2 p2 f1 same show ?thesis
    by (intro bexI [of _ r]) simp_all
qed

theorem view_notification_twice_witness:
  "wf example_state \<and> logged_in (system example_state) \<and>
   (\<exists>r\<in>set (stored example_state). notification_id (heap example_state ! r) = 2) \<and>
   ret (ViewNotification 2) example_state = RetOptional (Some 1) \<and>
   ret (ViewNotification 2) (post (ViewNotification 2) example_state) = RetOptional (Some 1) \<and>
   is_read (heap (post (ViewNotification 2) (post (ViewNotification 2) example_state)) ! 1)"
proof -
  have a: "wf example_state"
    by (simp add: example_state_def wf_def)
  have b: "logged_in (system example_state)"
    by (simp add: example_state_def logged_in_def)
  have c: "\<exists>r\<in>set (stored example_state). notification_id (heap example_state ! r) = 2"
    by (simp add: example_state_def)
  from view_notification_twice [OF a b c] a b c show ?thesis
    by (simp add: example_state_def run_eval)
qed

subsection \<open>The counter\<close>

text \<open>
  C10. In every state reached from a fresh system by calls of the public API,
  \<^verbatim>\<open>_next_id\<close> is the number of stored notifications plus 1, and the i-th stored
  notification has identifier i. The equation between counter and length holds in a
  fresh system and every call preserves it, from any state; the numbering of the stored
  notifications is preserved by every call from any state whose references are allocated
  objects.
\<close>

theorem next_id_is_length_plus_1:
  "next_id (center (reach h0 cs)) = int (length (stored (reach h0 cs))) + 1 \<and>
   stored_ids (reach h0 cs) = [1..int (length (stored (reach h0 cs)))] \<and>
   (\<forall>i<length (stored (reach h0 cs)).
      notification_id (heap (reach h0 cs) ! (stored (reach h0 cs) ! i)) = int i + 1) \<and>
   counter_inv (fresh h0) \<and>
   (counter_inv w \<longrightarrow> counter_inv (post c w)) \<and>
   (wf w \<and> counter_inv w \<and> ids_inv w \<longrightarrow> wf (post c w) \<and> ids_inv (post c w))"
proof -
  let ?w = "reach h0 cs"
  have ids: "stored_ids ?w = [1..int (length (stored ?w))]"
    and cnt: "next_id (center ?w) = int (length (stored ?w)) + 1"
    using reach_invs [of h0 cs] by (simp_all add: ids_inv_def counter_inv_def)
  have nth: "notification_id (heap ?w ! (stored ?w ! i)) = int i + 1"
    if "i < length (stored ?w)" for i
  proof -
    from that have "stored_ids ?w ! i = notification_id (heap ?w ! (stored ?w ! i))"
      by (simp add: stored_ids_def)
    moreover from that have "[1..int (length (stored ?w))] ! i = 1 + int i"
      by simp
    ultimately show ?thesis
      by (simp add: ids)
  qed
  have "counter_inv (fresh h0)"
    by (simp add: counter_inv_def fresh_def HealthcareProviderSystem_init_def
        NotificationCenter_init_def)
  with ids cnt nth show ?thesis
    by (simp add: counter_inv_post wf_post ids_inv_post)
qed

theorem next_id_is_length_plus_1_witness:
  "next_id (center (reach [] scenario_calls)) = 3 \<and>
   length (stored (reach [] scenario_calls)) = 2 \<and>
   stored_ids (reach [] scenario_calls) = [1, 2] \<and>
   wf example_state \<and> counter_inv example_state \<and> ids_inv example_state \<and>
   counter_inv (post (AddNotification 300 ''a'' ''b'') example_state) \<and>
   ids_inv (post (AddNotification 300 ''a'' ''b'') example_state)"
  using next_id_is_length_plus_1 [of "[]" scenario_calls example_state
     "AddNotification 300 ''a'' ''b''"]
  by (simp add: reach_scenario)
     (simp add: example_state_def wf_def counter_inv_def ids_inv_def stored_ids_def upto_rec1)

end
